theory Spec2Isabelle
  imports Complex_Main "HOL-Library.AList"
begin

section \<open>Inter-agent negotiation protocol\<close>

text \<open>
  A shallow embedding of \<^verbatim>\<open>shared/agent_negotiation_protocol.py\<close>
  (class \<^verbatim>\<open>AgentNegotiationEngine\<close>).

  Conventions of the embedding.
  \<^item> A Python \<^verbatim>\<open>float\<close> is a \<^typ>\<open>real\<close>: arithmetic is exact, rounding is not modelled.
  \<^item> A Python \<^verbatim>\<open>dict\<close> with string keys is an association list in insertion order;
    a dictionary has each key once, which is the predicate \<open>wf_dict\<close>.
  \<^item> A dictionary that arrives in a message and is read with \<^verbatim>\<open>.get(key, default)\<close>
    is a record of optional fields.
  \<^item> \<^verbatim>\<open>uuid.uuid4()\<close>, \<^verbatim>\<open>datetime.utcnow()\<close> and \<^verbatim>\<open>np.random.random()\<close> are read from an
    explicit environment; times are milliseconds.
  \<^item> \<^verbatim>\<open>_send_message\<close> has an empty body in the source; the model records what was handed
    to it.
  \<^item> An exception is a value of \<open>py_error\<close>; state changed before the raise stays changed.
\<close>

subsection \<open>Dictionaries\<close>

type_synonym 'v dict = "(string \<times> 'v) list"

definition wf_dict :: "'v dict \<Rightarrow> bool" where
  "wf_dict d = distinct (map fst d)"

text \<open>\<^verbatim>\<open>d.get(k, default)\<close>\<close>

definition dict_get :: "'v dict \<Rightarrow> string \<Rightarrow> 'v \<Rightarrow> 'v" where
  "dict_get d k dflt = (case map_of d k of None \<Rightarrow> dflt | Some v \<Rightarrow> v)"

text \<open>\<^verbatim>\<open>k in d\<close>\<close>

definition dict_mem :: "string \<Rightarrow> 'v dict \<Rightarrow> bool" where
  "dict_mem k d = (k \<in> fst ` set d)"

text \<open>\<^verbatim>\<open>d[k] = v\<close>: an existing key keeps its place, a new key goes last.\<close>

definition dict_set :: "'v dict \<Rightarrow> string \<Rightarrow> 'v \<Rightarrow> 'v dict" where
  "dict_set d k v = AList.update k v d"

text \<open>
  \<^verbatim>\<open>{k: f(v) for k, v in d.items()}\<close>, and equally the loop
  \<^verbatim>\<open>for k, v in d.items(): d[k] = f(v)\<close>, which overwrites every value in place.
\<close>

definition dict_map_values :: "('v \<Rightarrow> 'w) \<Rightarrow> 'v dict \<Rightarrow> 'w dict" where
  "dict_map_values f d = map (\<lambda>(k, v). (k, f v)) d"

text \<open>The same loop when the new value depends on the key as well.\<close>

definition dict_map_items :: "(string \<Rightarrow> 'v \<Rightarrow> 'w) \<Rightarrow> 'v dict \<Rightarrow> 'w dict" where
  "dict_map_items f d = map (\<lambda>(k, v). (k, f k v)) d"

subsection \<open>Enumerations and errors\<close>

datatype NegotiationType =
  RESOURCE_ALLOCATION | TASK_ASSIGNMENT | INFORMATION_SHARING
  | CONFLICT_RESOLUTION | COLLABORATIVE_ANALYSIS | WORKLOAD_BALANCING

datatype NegotiationStatus =
  INITIATED | IN_PROGRESS | OFFER_MADE | COUNTER_OFFER
  | ACCEPTED | REJECTED | EXPIRED | COMPLETED

datatype AgentRole = INITIATOR | RESPONDER | MEDIATOR | OBSERVER

datatype py_error = KeyError string | ValueError string | ZeroDivisionError

text \<open>The \<^verbatim>\<open>.value\<close> of a \<^verbatim>\<open>NegotiationType\<close> member.\<close>

fun type_value :: "NegotiationType \<Rightarrow> string" where
  "type_value RESOURCE_ALLOCATION = ''resource_allocation''"
| "type_value TASK_ASSIGNMENT = ''task_assignment''"
| "type_value INFORMATION_SHARING = ''information_sharing''"
| "type_value CONFLICT_RESOLUTION = ''conflict_resolution''"
| "type_value COLLABORATIVE_ANALYSIS = ''collaborative_analysis''"
| "type_value WORKLOAD_BALANCING = ''workload_balancing''"

text \<open>\<^verbatim>\<open>NegotiationType(s)\<close>: the member with that value, or \<^verbatim>\<open>ValueError\<close>.\<close>

definition NegotiationType_of :: "string \<Rightarrow> py_error + NegotiationType" where
  "NegotiationType_of s =
     (if s = ''resource_allocation'' then Inr RESOURCE_ALLOCATION
      else if s = ''task_assignment'' then Inr TASK_ASSIGNMENT
      else if s = ''information_sharing'' then Inr INFORMATION_SHARING
      else if s = ''conflict_resolution'' then Inr CONFLICT_RESOLUTION
      else if s = ''collaborative_analysis'' then Inr COLLABORATIVE_ANALYSIS
      else if s = ''workload_balancing'' then Inr WORKLOAD_BALANCING
      else Inl (ValueError s))"

subsection \<open>Data model\<close>

text \<open>The dictionary built by \<^verbatim>\<open>_create_proposal\<close>.\<close>

record proposal =
  p_task_assignment :: string
  p_offered :: "real dict"
  p_requested :: "real dict"
  p_timeline :: string
  p_success_criteria :: "string list"

text \<open>The dataclass \<^verbatim>\<open>NegotiationOffer\<close>.\<close>

record NegotiationOffer =
  offer_id :: string
  from_agent :: string
  to_agent :: string
  negotiation_type :: NegotiationType
  proposal :: proposal
  resources_requested :: "real dict"
  resources_offered :: "real dict"
  constraints :: "string list"
  priority :: real
  confidence :: real
  deadline :: int
  created_at :: int

text \<open>
  An offer as a dictionary (\<^verbatim>\<open>offer: Dict\<close> in the handlers): the keys the engine reads,
  each of which may be absent.
\<close>

record offer_dict =
  get_from_agent :: "string option"
  get_negotiation_type :: "string option"
  get_resources_requested :: "real dict option"
  get_resources_offered :: "real dict option"
  get_priority :: "real option"
  get_confidence :: "real option"

text \<open>\<^verbatim>\<open>offer.__dict__\<close>, restricted to the keys of \<open>offer_dict\<close>.\<close>

definition as_dict :: "NegotiationOffer \<Rightarrow> offer_dict" where
  "as_dict offer =
     \<lparr> get_from_agent = Some (from_agent offer),
       get_negotiation_type = Some (type_value (negotiation_type offer)),
       get_resources_requested = Some (resources_requested offer),
       get_resources_offered = Some (resources_offered offer),
       get_priority = Some (priority offer),
       get_confidence = Some (confidence offer) \<rparr>"

text \<open>The dataclass \<^verbatim>\<open>AgentCapability\<close>.\<close>

record AgentCapability =
  agent_id :: string
  available_resources :: "real dict"
  expertise_areas :: "string list"
  current_workload :: real
  collaboration_history :: "real dict"
  negotiation_style :: string
  trust_scores :: "real dict"

text \<open>A request (\<^verbatim>\<open>request: Dict\<close>, \<^verbatim>\<open>request_details\<close>): the keys the engine reads.\<close>

record request =
  get_task :: "string option"
  get_timeline :: "string option"
  get_success_criteria :: "string list option"
  get_request_priority :: "real option"
  get_resources_needed :: "real dict option"
  get_required_expertise :: "string list option"

text \<open>An agreement: the keys \<^verbatim>\<open>_create_agreement\<close> writes and \<^verbatim>\<open>_execute_agreement\<close> reads.\<close>

record agreement =
  agreement_id :: "string option"
  terms :: "offer_dict option"
  resources_committed :: "real dict option"
  workload_increase :: "real option"
  peer_agent :: "string option"

text \<open>
  A negotiation session, an entry of \<^verbatim>\<open>active_negotiations\<close>. The initiator's session
  has \<^verbatim>\<open>max_rounds\<close>, \<^verbatim>\<open>deadline\<close>, \<^verbatim>\<open>initial_request\<close> and \<^verbatim>\<open>current_offer\<close>; the
  responder's has \<^verbatim>\<open>role\<close> and \<^verbatim>\<open>peer_offer\<close>; \<^verbatim>\<open>our_last_offer\<close> is written only by
  \<^verbatim>\<open>_refine_offer\<close>.
\<close>

record negotiation =
  negotiation_id :: string
  type_ :: NegotiationType
  participants :: "string list"
  status :: NegotiationStatus
  current_round :: int
  max_rounds :: "int option"
  session_deadline :: "int option"
  initial_request :: "request option"
  current_offer :: "NegotiationOffer option"
  role :: "AgentRole option"
  peer_offer :: "offer_dict option"
  history :: "offer_dict list"
  session_created_at :: int
  our_last_offer :: "offer_dict option"

text \<open>
  The engine: its identity, its capabilities and its sessions. Its \<^verbatim>\<open>agent_type\<close>, its
  \<^verbatim>\<open>negotiation_history\<close> (never written), its learning parameters and its handler table
  are not read by the methods modelled here and are left out; the dispatch through the
  handler table is \<open>handle_message\<close>.
\<close>

record engine =
  self_agent_id :: string
  capabilities :: AgentCapability
  active_negotiations :: "negotiation dict"

text \<open>What one call reads from the outside world.\<close>

record env =
  uuid4 :: string
  uuid4_second :: string
  utcnow :: int
  random :: real

text \<open>The environment after one \<^verbatim>\<open>uuid4()\<close> has been drawn: the second is next.\<close>

definition after_uuid4 :: "env \<Rightarrow> env" where
  "after_uuid4 ev = ev\<lparr>uuid4 := uuid4_second ev\<rparr>"

subsection \<open>Helper methods\<close>

definition calculate_available_resources :: "AgentCapability \<Rightarrow> real dict" where
  "calculate_available_resources caps =
     dict_map_values (\<lambda>v. v * (1 - current_workload caps)) (available_resources caps)"

definition extract_resource_requirements :: "request \<Rightarrow> real dict" where
  "extract_resource_requirements req =
     (case get_resources_needed req of None \<Rightarrow> [] | Some d \<Rightarrow> d)"

definition generate_constraints :: "engine \<Rightarrow> string list" where
  "generate_constraints e =
     (if current_workload (capabilities e) > 0.7 then [''high_workload_priority_only''] else [])
     @ (if length (active_negotiations e) > 3 then [''limited_concurrent_negotiations''] else [])"

definition calculate_offer_confidence :: "env \<Rightarrow> real dict \<Rightarrow> real dict \<Rightarrow> real" where
  "calculate_offer_confidence ev offered requested = 0.7 + random ev * 0.3"

definition create_proposal :: "request \<Rightarrow> real dict \<Rightarrow> real dict \<Rightarrow> proposal" where
  "create_proposal req offered requested =
     \<lparr> p_task_assignment = (case get_task req of None \<Rightarrow> '''' | Some t \<Rightarrow> t),
       p_offered = offered,
       p_requested = requested,
       p_timeline = (case get_timeline req of None \<Rightarrow> ''immediate'' | Some t \<Rightarrow> t),
       p_success_criteria = (case get_success_criteria req of None \<Rightarrow> [] | Some c \<Rightarrow> c) \<rparr>"

definition empty_request :: request where
  "empty_request =
     \<lparr> get_task = None, get_timeline = None, get_success_criteria = None,
       get_request_priority = None, get_resources_needed = None,
       get_required_expertise = None \<rparr>"




text \<open>The placeholder methods of the source, as they are written there.\<close>

definition assess_our_needs :: "request \<Rightarrow> real dict" where
  "assess_our_needs req = []"

definition determine_negotiation_strategy :: "string \<Rightarrow> offer_dict \<Rightarrow> string" where
  "determine_negotiation_strategy peer offer = ''adaptive''"


definition create_counter_proposal :: "offer_dict \<Rightarrow> real dict \<Rightarrow> real dict \<Rightarrow> proposal" where
  "create_counter_proposal initial offered requested = create_proposal empty_request offered requested"

definition create_refined_proposal :: "offer_dict \<Rightarrow> real dict \<Rightarrow> real dict \<Rightarrow> proposal" where
  "create_refined_proposal peer offered requested = create_proposal empty_request offered requested"


subsection \<open>Trust and collaboration history\<close>

definition update_collaboration_history :: "AgentCapability \<Rightarrow> string \<Rightarrow> bool \<Rightarrow> AgentCapability" where
  "update_collaboration_history caps peer success =
     (let current_rate = dict_get (collaboration_history caps) peer 0.5;
          new_rate = current_rate * 0.9 + (if success then 1 else 0) * 0.1
      in caps\<lparr>collaboration_history := dict_set (collaboration_history caps) peer new_rate\<rparr>)"

definition update_trust_score :: "AgentCapability \<Rightarrow> string \<Rightarrow> real \<Rightarrow> AgentCapability" where
  "update_trust_score caps peer change =
     (let current_trust = dict_get (trust_scores caps) peer 0.5;
          new_trust = max 0 (min 1 (current_trust + change))
      in caps\<lparr>trust_scores := dict_set (trust_scores caps) peer new_trust\<rparr>)"

subsection \<open>Executing an agreement\<close>

text \<open>
  One turn of the loop over \<^verbatim>\<open>resources_committed.items()\<close>: a resource the agent has is
  reduced by the committed amount.
\<close>

definition commit_resource :: "string \<times> real \<Rightarrow> real dict \<Rightarrow> real dict" where
  "commit_resource ra avail =
     (case ra of (resource, amount) \<Rightarrow>
        if dict_mem resource avail
        then dict_set avail resource (dict_get avail resource 0 - amount)
        else avail)"

definition execute_agreement :: "AgentCapability \<Rightarrow> agreement \<Rightarrow> AgentCapability" where
  "execute_agreement caps agr =
     (let committed = (case resources_committed agr of None \<Rightarrow> [] | Some d \<Rightarrow> d);
          caps1 = caps\<lparr>available_resources := fold commit_resource committed (available_resources caps)\<rparr>;
          increase = (case workload_increase agr of None \<Rightarrow> 0 | Some w \<Rightarrow> w);
          caps2 = caps1\<lparr>current_workload := min 1 (current_workload caps1 + increase)\<rparr>;
          peer = (case peer_agent agr of None \<Rightarrow> '''' | Some p \<Rightarrow> p)
      in if peer \<noteq> ''''
         then update_trust_score (update_collaboration_history caps2 peer True) peer 0.05
         else caps2)"

subsection \<open>Messages\<close>

text \<open>What the engine hands to \<^verbatim>\<open>_send_message(target, message_type, content)\<close>.\<close>

datatype content =
  NegotiationRequestContent string string string NegotiationOffer int request
  | RejectionContent string string "string list option" "real option"
  | AcceptanceContent string agreement real
  | CounterOfferContent string NegotiationOffer string "string list option" "int option"

datatype sent = Sent string string content

text \<open>What a handler returns.\<close>

datatype response =
  RNone | RError string | RAccepted agreement | RRejected string
  | RCounterOffered NegotiationOffer | RAcknowledged

subsection \<open>Initial offer\<close>

definition formulate_initial_offer ::
  "engine \<Rightarrow> env \<Rightarrow> string \<Rightarrow> NegotiationType \<Rightarrow> request \<Rightarrow> NegotiationOffer" where
  "formulate_initial_offer e ev target_agent ntype req =
     (let caps = capabilities e;
          offered0 = calculate_available_resources caps;
          requested = extract_resource_requirements req;
          trust_level = dict_get (trust_scores caps) target_agent 0.5;
          collaboration_success = dict_get (collaboration_history caps) target_agent 0.5;
          offer_generosity = (trust_level + collaboration_success) / 2;
          offered = dict_map_values (\<lambda>amount. amount * offer_generosity) offered0;
          cs = generate_constraints e
      in \<lparr> offer_id = uuid4 ev,
           from_agent = self_agent_id e,
           to_agent = target_agent,
           negotiation_type = ntype,
           proposal = create_proposal req offered requested,
           resources_requested = requested,
           resources_offered = offered,
           constraints = cs,
           priority = (case get_request_priority req of None \<Rightarrow> 0.5 | Some p \<Rightarrow> p),
           confidence = calculate_offer_confidence ev offered requested,
           deadline = utcnow ev + 300000,
           created_at = utcnow ev \<rparr>)"

definition initiate_negotiation ::
  "engine \<Rightarrow> env \<Rightarrow> string \<Rightarrow> NegotiationType \<Rightarrow> request \<Rightarrow> int
     \<Rightarrow> engine \<times> sent list \<times> string" where
  "initiate_negotiation e ev target_agent ntype req max_duration_ms =
     (let nid = uuid4 ev;
          dl = utcnow ev + max_duration_ms;
          initial_offer = formulate_initial_offer e (after_uuid4 ev) target_agent ntype req;
          neg = \<lparr> negotiation_id = nid,
                  type_ = ntype,
                  participants = [self_agent_id e, target_agent],
                  status = INITIATED,
                  current_round = 1,
                  max_rounds = Some 10,
                  session_deadline = Some dl,
                  initial_request = Some req,
                  current_offer = Some initial_offer,
                  role = None,
                  peer_offer = None,
                  history = [],
                  session_created_at = utcnow ev,
                  our_last_offer = None \<rparr>
      in (e\<lparr>active_negotiations := dict_set (active_negotiations e) nid neg\<rparr>,
          [Sent target_agent ''negotiation_request''
             (NegotiationRequestContent nid (self_agent_id e) (type_value ntype) initial_offer dl req)],
          nid))"

subsection \<open>Participation gate\<close>


subsection \<open>Counter-offer\<close>

definition formulate_counter_offer ::
  "engine \<Rightarrow> env \<Rightarrow> string \<Rightarrow> offer_dict \<Rightarrow> request \<Rightarrow> py_error + NegotiationOffer" where
  "formulate_counter_offer e ev peer initial_offer request_details =
     (let caps = capabilities e;
          our_available = calculate_available_resources caps;
          our_needs = assess_our_needs request_details;
          strategy = determine_negotiation_strategy peer initial_offer;
          (offered, requested) =
            (if strategy = ''cooperative''
             then (dict_map_values (\<lambda>v. v * 0.8) our_available,
                   dict_map_values (\<lambda>v. v * 0.7) our_needs)
             else if strategy = ''competitive''
             then (dict_map_values (\<lambda>v. v * 0.4) our_available,
                   dict_map_values (\<lambda>v. v * 1.2) our_needs)
             else
               let trust_factor = dict_get (trust_scores caps) peer 0.5;
                   offer_factor = 0.4 + trust_factor * 0.4;
                   request_factor = 1 - trust_factor * 0.3
               in (dict_map_values (\<lambda>v. v * offer_factor) our_available,
                   dict_map_values (\<lambda>v. v * request_factor) our_needs))
      in case NegotiationType_of
                (case get_negotiation_type initial_offer of None \<Rightarrow> ''task_assignment'' | Some s \<Rightarrow> s) of
           Inl err \<Rightarrow> Inl err
         | Inr ntype \<Rightarrow>
             Inr \<lparr> offer_id = uuid4 ev,
                   from_agent = self_agent_id e,
                   to_agent = peer,
                   negotiation_type = ntype,
                   proposal = create_counter_proposal initial_offer offered requested,
                   resources_requested = requested,
                   resources_offered = offered,
                   constraints = generate_constraints e,
                   priority = (case get_priority initial_offer of None \<Rightarrow> 0.5 | Some p \<Rightarrow> p),
                   confidence = calculate_offer_confidence ev offered requested,
                   deadline = utcnow ev + 180000,
                   created_at = utcnow ev \<rparr>)"

subsection \<open>Offer evaluation\<close>

text \<open>
  The first loop of \<^verbatim>\<open>_evaluate_offer\<close>: the satisfactions are summed and divided by the
  number of needs; with no needs the value stays \<open>0\<close>.
\<close>

definition needs_satisfaction_of :: "real dict \<Rightarrow> real dict \<Rightarrow> real" where
  "needs_satisfaction_of offered our_needs =
     (if our_needs \<noteq> []
      then fold (\<lambda>(resource, needed) acc.
                   acc + (if needed > 0 then min 1 (dict_get offered resource 0 / needed) else 1))
             our_needs 0
           / real (length our_needs)
      else 0)"

text \<open>
  The second loop: the running product is multiplied by \<open>available / requested\<close> for each
  request above what is available. The division raises when \<open>requested\<close> is \<open>0\<close>.
\<close>

fun request_reasonableness_of :: "real dict \<Rightarrow> real dict \<Rightarrow> real \<Rightarrow> py_error + real" where
  "request_reasonableness_of our_available [] acc = Inr acc"
| "request_reasonableness_of our_available ((resource, requested) # rest) acc =
     (let available = dict_get our_available resource 0
      in if requested > available
         then (if requested = 0 then Inl ZeroDivisionError
               else request_reasonableness_of our_available rest (acc * (available / requested)))
         else request_reasonableness_of our_available rest acc)"

definition evaluate_offer :: "AgentCapability \<Rightarrow> offer_dict \<Rightarrow> negotiation \<Rightarrow> py_error + real" where
  "evaluate_offer caps offer neg =
     (let offered = (case get_resources_offered offer of None \<Rightarrow> [] | Some d \<Rightarrow> d);
          requested = (case get_resources_requested offer of None \<Rightarrow> [] | Some d \<Rightarrow> d);
          our_available = calculate_available_resources caps;
          our_needs = assess_our_needs
                        (case initial_request neg of None \<Rightarrow> empty_request | Some r \<Rightarrow> r);
          needs_satisfaction = needs_satisfaction_of offered our_needs
      in case request_reasonableness_of our_available requested 1 of
           Inl err \<Rightarrow> Inl err
         | Inr request_reasonableness \<Rightarrow>
             let peer = (case get_from_agent offer of None \<Rightarrow> '''' | Some a \<Rightarrow> a);
                 trust_bonus = dict_get (trust_scores caps) peer 0.5 * 0.1;
                 history_bonus = dict_get (collaboration_history caps) peer 0.5 * 0.1;
                 score = needs_satisfaction * 0.4 + request_reasonableness * 0.4
                         + trust_bonus + history_bonus;
                 conf = (case get_confidence offer of None \<Rightarrow> 0.5 | Some c \<Rightarrow> c)
             in Inr (min 1 (score * (0.5 + conf * 0.5))))"

subsection \<open>Offer refinement\<close>

text \<open>
  \<^verbatim>\<open>_refine_offer\<close> takes the two resource dictionaries out of
  \<^verbatim>\<open>negotiation["our_last_offer"]\<close> and overwrites their values in place, so the session's
  last offer holds the new amounts from then on, also when building the new offer raises.
\<close>

definition refine_offer ::
  "engine \<Rightarrow> env \<Rightarrow> offer_dict \<Rightarrow> negotiation \<Rightarrow> real \<Rightarrow> negotiation \<times> (py_error + NegotiationOffer)" where
  "refine_offer e ev peer neg current_score =
     (let improvement_factor = (1 - current_score) * 0.3;
          offered0 = (case our_last_offer neg of None \<Rightarrow> []
                      | Some cur \<Rightarrow> (case get_resources_offered cur of None \<Rightarrow> [] | Some d \<Rightarrow> d));
          requested0 = (case our_last_offer neg of None \<Rightarrow> []
                        | Some cur \<Rightarrow> (case get_resources_requested cur of None \<Rightarrow> [] | Some d \<Rightarrow> d));
          offered1 = dict_map_values (\<lambda>amount. amount * (1 + improvement_factor)) offered0;
          requested = dict_map_values (\<lambda>amount. amount * (1 - improvement_factor * 0.5)) requested0;
          our_available = calculate_available_resources (capabilities e);
          offered = dict_map_items
                      (\<lambda>resource amount. min amount (dict_get our_available resource 0 * 0.9)) offered1;
          neg1 = neg\<lparr>our_last_offer :=
                   map_option
                     (\<lambda>cur. cur\<lparr>get_resources_offered := map_option (\<lambda>_. offered) (get_resources_offered cur),
                                get_resources_requested := map_option (\<lambda>_. requested) (get_resources_requested cur)\<rparr>)
                     (our_last_offer neg)\<rparr>
      in case NegotiationType_of
                (case get_negotiation_type peer of None \<Rightarrow> ''task_assignment'' | Some s \<Rightarrow> s) of
           Inl err \<Rightarrow> (neg1, Inl err)
         | Inr ntype \<Rightarrow>
             let refined_offer =
                   \<lparr> offer_id = uuid4 ev,
                     from_agent = self_agent_id e,
                     to_agent = (case get_from_agent peer of None \<Rightarrow> '''' | Some a \<Rightarrow> a),
                     negotiation_type = ntype,
                     proposal = create_refined_proposal peer offered requested,
                     resources_requested = requested,
                     resources_offered = offered,
                     constraints = generate_constraints e,
                     priority = (case get_priority peer of None \<Rightarrow> 0.5 | Some p \<Rightarrow> p),
                     confidence = min 1 (current_score + improvement_factor),
                     deadline = utcnow ev + 120000,
                     created_at = utcnow ev \<rparr>
             in (neg1\<lparr>our_last_offer := Some (as_dict refined_offer)\<rparr>, Inr refined_offer))"

subsection \<open>Handlers\<close>

text \<open>
  A handler returns the engine after the call, the messages handed to
  \<^verbatim>\<open>_send_message\<close>, and its return value or the exception it raised. A session dictionary
  is changed in place, so every change made before a raise is kept.
\<close>

type_synonym outcome = "engine \<times> sent list \<times> (py_error + response)"

definition put_session :: "engine \<Rightarrow> string \<Rightarrow> negotiation \<Rightarrow> engine" where
  "put_session e nid neg = e\<lparr>active_negotiations := dict_set (active_negotiations e) nid neg\<rparr>"

definition session_of :: "engine \<Rightarrow> string \<Rightarrow> negotiation option" where
  "session_of e nid = map_of (active_negotiations e) nid"






definition handle_acceptance :: "engine \<Rightarrow> string \<Rightarrow> agreement \<Rightarrow> outcome" where
  "handle_acceptance e nid agr =
     (case session_of e nid of
        None \<Rightarrow> (e, [], Inr RAcknowledged)
      | Some neg \<Rightarrow>
          let e1 = put_session e nid (neg\<lparr>status := COMPLETED\<rparr>)
          in (e1\<lparr>capabilities := execute_agreement (capabilities e1) agr\<rparr>, [], Inr RAcknowledged))"




section \<open>Properties\<close>

subsection \<open>Ranges of the relationship scores\<close>

definition in_unit_interval :: "real dict \<Rightarrow> bool" where
  "in_unit_interval d = list_all (\<lambda>(k, v). 0 \<le> v \<and> v \<le> 1) d"

definition scores_in_range :: "AgentCapability \<Rightarrow> bool" where
  "scores_in_range caps =
     (in_unit_interval (trust_scores caps) \<and> in_unit_interval (collaboration_history caps))"

definition resources_nonneg :: "AgentCapability \<Rightarrow> bool" where
  "resources_nonneg caps = list_all (\<lambda>(k, v). 0 \<le> v) (available_resources caps)"

text \<open>The operations that change relationship scores and resources, and a run of them.\<close>

datatype operation =
  UpdateTrust string real | UpdateHistory string bool | ExecuteAgreement agreement

fun apply_operation :: "operation \<Rightarrow> AgentCapability \<Rightarrow> AgentCapability" where
  "apply_operation (UpdateTrust peer change) caps = update_trust_score caps peer change"
| "apply_operation (UpdateHistory peer success) caps = update_collaboration_history caps peer success"
| "apply_operation (ExecuteAgreement agr) caps = execute_agreement caps agr"

definition run_operations :: "operation list \<Rightarrow> AgentCapability \<Rightarrow> AgentCapability" where
  "run_operations ops caps = fold apply_operation ops caps"

subsection \<open>Example states\<close>

text \<open>An agent with one unit of \<open>cpu\<close>, no workload and no recorded peers.\<close>

definition fresh_capabilities :: AgentCapability where
  "fresh_capabilities =
     \<lparr> agent_id = ''a'', available_resources = [(''cpu'', 1)], expertise_areas = [''fraud''],
       current_workload = 0, collaboration_history = [], negotiation_style = ''adaptive'',
       trust_scores = [] \<rparr>"

text \<open>An agreement that commits \<open>amount\<close> of \<open>cpu\<close> and nothing else.\<close>

definition cpu_agreement :: "real \<Rightarrow> agreement" where
  "cpu_agreement amount =
     \<lparr> agreement_id = Some ''g'', terms = None, resources_committed = Some [(''cpu'', amount)],
       workload_increase = None, peer_agent = None \<rparr>"

definition fresh_engine :: engine where
  "fresh_engine =
     \<lparr> self_agent_id = ''a'', capabilities = fresh_capabilities, active_negotiations = [] \<rparr>"

definition env_at :: "string \<Rightarrow> int \<Rightarrow> env" where
  "env_at uid now = \<lparr> uuid4 = uid, uuid4_second = ''o'', utcnow = now, random = 0.5 \<rparr>"

text \<open>
  The engine after it has opened two negotiations, \<open>m\<close> with agent \<open>b\<close> and \<open>n\<close> with agent
  \<open>c\<close>, and then after both peers have accepted with an agreement that commits \<open>0.8\<close> of
  its one unit of \<open>cpu\<close>.
\<close>

definition two_sessions :: engine where
  "two_sessions =
     fst (initiate_negotiation
            (fst (initiate_negotiation fresh_engine (env_at ''m'' 1000) ''b'' TASK_ASSIGNMENT
                    empty_request 30000))
            (env_at ''n'' 2000) ''c'' TASK_ASSIGNMENT empty_request 30000)"

definition overdrawn_engine :: engine where
  "overdrawn_engine =
     fst (handle_acceptance (fst (handle_acceptance two_sessions ''m'' (cpu_agreement 0.8)))
            ''n'' (cpu_agreement 0.8))"

subsection \<open>Effective availability\<close>

text \<open>
  The effective availability of a resource kind is its nominal amount discounted by the
  workload; a kind the agent does not have counts as \<open>0\<close>, as in
  \<^verbatim>\<open>our_available.get(resource, 0)\<close>.
\<close>

definition effective_available :: "AgentCapability \<Rightarrow> string \<Rightarrow> real" where
  "effective_available caps kind =
     dict_get (available_resources caps) kind 0 * (1 - current_workload caps)"

definition within_availability :: "AgentCapability \<Rightarrow> real dict \<Rightarrow> bool" where
  "within_availability caps offered =
     list_all (\<lambda>(kind, amount). amount \<le> effective_available caps kind) offered"

definition availability_nonneg :: "AgentCapability \<Rightarrow> bool" where
  "availability_nonneg caps =
     list_all (\<lambda>(kind, v). 0 \<le> v * (1 - current_workload caps)) (available_resources caps)"

text \<open>A session as \<^verbatim>\<open>initiate_negotiation\<close> leaves it, and an offer from agent \<open>b\<close>.\<close>

definition example_session :: negotiation where
  "example_session =
     \<lparr> negotiation_id = ''m'', type_ = TASK_ASSIGNMENT, participants = [''a'', ''b''],
       status = INITIATED, current_round = 1, max_rounds = Some 10,
       session_deadline = Some 31000, initial_request = Some empty_request,
       current_offer = None, role = None, peer_offer = None, history = [],
       session_created_at = 1000, our_last_offer = None \<rparr>"

definition offer_requesting :: "real \<Rightarrow> offer_dict" where
  "offer_requesting amount =
     \<lparr> get_from_agent = Some ''b'', get_negotiation_type = Some ''task_assignment'',
       get_resources_requested = Some [(''cpu'', amount)], get_resources_offered = Some [],
       get_priority = Some 0.5, get_confidence = Some 1 \<rparr>"

subsection \<open>The acceptance score as the specification words it\<close>

definition positive_amounts :: "real dict \<Rightarrow> bool" where
  "positive_amounts d = list_all (\<lambda>(k, v). 0 < v) d"

text \<open>
  The mean over the needed resources of \<open>min(1, offered / needed)\<close>; a mean over no
  resources is taken to be \<open>0\<close>.
\<close>

definition spec_needs_satisfaction :: "real dict \<Rightarrow> real dict \<Rightarrow> real" where
  "spec_needs_satisfaction offered needs =
     (if needs = [] then 0
      else sum_list (map (\<lambda>(resource, needed). min 1 (dict_get offered resource 0 / needed)) needs)
           / real (length needs))"

text \<open>The product over the requested resources of \<open>min(1, available / requested)\<close>.\<close>

definition spec_request_reasonableness :: "real dict \<Rightarrow> real dict \<Rightarrow> real" where
  "spec_request_reasonableness available requested =
     prod_list (map (\<lambda>(resource, amount). min 1 (dict_get available resource 0 / amount)) requested)"

text \<open>
  \<open>min(1, (0.4 * needsSatisfaction + 0.4 * requestReasonableness + 0.1 * trust[from]
  + 0.1 * collaborationHistory[from]) * (0.5 + 0.5 * confidence))\<close>, with \<open>0.5\<close> for an
  unknown peer and for an offer without a confidence.
\<close>

definition spec_score :: "AgentCapability \<Rightarrow> offer_dict \<Rightarrow> real dict \<Rightarrow> real" where
  "spec_score caps offer needs =
     (let offered = (case get_resources_offered offer of None \<Rightarrow> [] | Some d \<Rightarrow> d);
          requested = (case get_resources_requested offer of None \<Rightarrow> [] | Some d \<Rightarrow> d);
          sender = (case get_from_agent offer of None \<Rightarrow> '''' | Some a \<Rightarrow> a);
          conf = (case get_confidence offer of None \<Rightarrow> 0.5 | Some c \<Rightarrow> c)
      in min 1 ((0.4 * spec_needs_satisfaction offered needs
                 + 0.4 * spec_request_reasonableness (calculate_available_resources caps) requested
                 + 0.1 * dict_get (trust_scores caps) sender 0.5
                 + 0.1 * dict_get (collaboration_history caps) sender 0.5)
                * (0.5 + 0.5 * conf)))"

subsection \<open>The participation gate as the specification words it\<close>




subsection \<open>Runs of counter-offers\<close>



subsection \<open>Deadlines and terminal statuses\<close>




subsection \<open>Scenario A\<close>





subsection \<open>Successive refinements\<close>

text \<open>
  Successive calls of \<^verbatim>\<open>_refine_offer\<close> on one session, for a fixed peer offer and an
  unchanged engine; each call has its own environment and current score. The offers stop
  if a call raises.
\<close>

fun successive_refinements ::
  "engine \<Rightarrow> offer_dict \<Rightarrow> negotiation \<Rightarrow> (env \<times> real) list \<Rightarrow> NegotiationOffer list" where
  "successive_refinements e their_offer neg [] = []"
| "successive_refinements e their_offer neg ((ev, score) # rest) =
     (case refine_offer e ev their_offer neg score of
        (neg1, Inl err) \<Rightarrow> []
      | (neg1, Inr offer) \<Rightarrow> offer # successive_refinements e their_offer neg1 rest)"

text \<open>
  The offered and requested amounts a refinement starts from (those of
  \<^verbatim>\<open>negotiation["our_last_offer"]\<close>, empty when there is none), and those of an offer.
\<close>

definition last_offer_amounts :: "negotiation \<Rightarrow> real dict \<times> real dict" where
  "last_offer_amounts neg =
     ((case our_last_offer neg of None \<Rightarrow> []
       | Some cur \<Rightarrow> (case get_resources_offered cur of None \<Rightarrow> [] | Some d \<Rightarrow> d)),
      (case our_last_offer neg of None \<Rightarrow> []
       | Some cur \<Rightarrow> (case get_resources_requested cur of None \<Rightarrow> [] | Some d \<Rightarrow> d)))"

definition offer_amounts :: "NegotiationOffer \<Rightarrow> real dict \<times> real dict" where
  "offer_amounts offer = (resources_offered offer, resources_requested offer)"







subsection \<open>Offers as objects\<close>

text \<open>
  Whether an offer can change after it was created depends on which dictionaries are
  shared, so here the resource dictionaries are objects in a store: an address is a
  position in the store, and the store holds what each dictionary contains now. An offer
  holds the addresses of its \<^verbatim>\<open>resources_offered\<close> and \<^verbatim>\<open>resources_requested\<close>. No statement of
  the source assigns to a field of an offer, so its other fields cannot change and are left
  out.
\<close>

type_synonym store = "real dict list"

record offer_object =
  ref_resources_offered :: nat
  ref_resources_requested :: nat

text \<open>\<^verbatim>\<open>{}\<close>: a new empty dictionary, at the next free address.\<close>

definition allocate_empty :: "store \<Rightarrow> store \<times> nat" where
  "allocate_empty h = (h @ [[]], length h)"

text \<open>What an offer's two dictionaries contain in a store.\<close>

definition offer_contents :: "store \<Rightarrow> offer_object \<Rightarrow> real dict \<times> real dict" where
  "offer_contents h offer = (h ! ref_resources_offered offer, h ! ref_resources_requested offer)"

definition valid_offer :: "store \<Rightarrow> offer_object \<Rightarrow> bool" where
  "valid_offer h offer =
     (ref_resources_offered offer < length h \<and> ref_resources_requested offer < length h)"

text \<open>
  \<^verbatim>\<open>_refine_offer\<close> on the store. \<^verbatim>\<open>current_offer.get("resources_offered", {})\<close> is the
  dictionary of the session's last offer itself when there is one (\<^verbatim>\<open>our_last_offer\<close> is the
  \<^verbatim>\<open>__dict__\<close> of that offer), and a new empty dictionary otherwise. The three loops assign
  into these dictionaries, and the new offer is built with the same two dictionaries.
\<close>

definition refine_offer_in_store ::
  "AgentCapability \<Rightarrow> store \<Rightarrow> offer_object option \<Rightarrow> real \<Rightarrow> store \<times> offer_object" where
  "refine_offer_in_store caps h last_offer current_score =
     (let improvement_factor = (1 - current_score) * 0.3;
          (h1, offered) = (case last_offer of None \<Rightarrow> allocate_empty h
                           | Some cur \<Rightarrow> (h, ref_resources_offered cur));
          (h2, requested) = (case last_offer of None \<Rightarrow> allocate_empty h1
                             | Some cur \<Rightarrow> (h1, ref_resources_requested cur));
          h3 = h2[offered :=
                    dict_map_values (\<lambda>amount. amount * (1 + improvement_factor)) (h2 ! offered)];
          h4 = h3[requested :=
                    dict_map_values (\<lambda>amount. amount * (1 - improvement_factor * 0.5)) (h3 ! requested)];
          our_available = calculate_available_resources caps;
          h5 = h4[offered :=
                    dict_map_items
                      (\<lambda>resource amount. min amount (dict_get our_available resource 0 * 0.9))
                      (h4 ! offered)]
      in (h5, \<lparr> ref_resources_offered = offered, ref_resources_requested = requested \<rparr>))"



section \<open>Proofs\<close>

subsection \<open>Dictionaries\<close>

lemma in_unit_interval_get:
  "in_unit_interval d \<Longrightarrow> 0 \<le> dflt \<Longrightarrow> dflt \<le> 1
     \<Longrightarrow> 0 \<le> dict_get d k dflt \<and> dict_get d k dflt \<le> 1"
  by (auto simp: in_unit_interval_def dict_get_def list_all_iff split: option.splits
      dest!: map_of_SomeD)

lemma in_unit_interval_set:
  "in_unit_interval d \<Longrightarrow> 0 \<le> v \<Longrightarrow> v \<le> 1 \<Longrightarrow> in_unit_interval (dict_set d k v)"
  unfolding in_unit_interval_def dict_set_def
  by (induction d) auto

subsection \<open>Relationship scores stay in range\<close>

lemma update_trust_score_in_range:
  "scores_in_range caps \<Longrightarrow> scores_in_range (update_trust_score caps peer change)"
  by (simp add: scores_in_range_def update_trust_score_def Let_def in_unit_interval_set)

lemma update_collaboration_history_in_range:
  assumes "scores_in_range caps"
  shows "scores_in_range (update_collaboration_history caps peer success)"
proof -
  let ?r = "dict_get (collaboration_history caps) peer 0.5"
  have r: "0 \<le> ?r \<and> ?r \<le> 1"
    using assms by (intro in_unit_interval_get) (simp_all add: scores_in_range_def)
  have "0 \<le> ?r * 0.9 + (if success then 1 else 0) * 0.1"
    and "?r * 0.9 + (if success then 1 else 0) * 0.1 \<le> 1"
    using r by auto
  then show ?thesis
    using assms
    by (simp add: scores_in_range_def update_collaboration_history_def Let_def in_unit_interval_set)
qed

lemma execute_agreement_in_range:
  assumes "scores_in_range caps"
  shows "scores_in_range (execute_agreement caps agr)"
proof -
  define caps2 where "caps2 = caps\<lparr>available_resources :=
       fold commit_resource (case resources_committed agr of None \<Rightarrow> [] | Some d \<Rightarrow> d)
         (available_resources caps),
     current_workload :=
       min 1 (current_workload caps + (case workload_increase agr of None \<Rightarrow> 0 | Some w \<Rightarrow> w))\<rparr>"
  have c2: "scores_in_range caps2"
    using assms by (simp add: caps2_def scores_in_range_def)
  have "execute_agreement caps agr =
     (let peer = (case peer_agent agr of None \<Rightarrow> '''' | Some p \<Rightarrow> p)
      in if peer \<noteq> ''''
         then update_trust_score (update_collaboration_history caps2 peer True) peer 0.05
         else caps2)"
    by (simp add: execute_agreement_def caps2_def Let_def)
  then show ?thesis
    using c2 by (simp add: Let_def update_trust_score_in_range update_collaboration_history_in_range)
qed

lemma apply_operation_in_range:
  "scores_in_range caps \<Longrightarrow> scores_in_range (apply_operation op caps)"
  by (cases op)
     (simp_all add: update_trust_score_in_range update_collaboration_history_in_range
        execute_agreement_in_range)

text \<open>
  Claim C8, as amended. Starting from trust scores and collaboration-history values in
  \<open>[0,1]\<close>, every trust score and every collaboration-history value is in \<open>[0,1]\<close> after any
  finite run of trust updates, history updates and agreement executions: a trust score is
  clamped, a history value is a weighted mean of a value in range and \<open>0\<close> or \<open>1\<close>. Nothing is
  said of the available resources, which \<^verbatim>\<open>_execute_agreement\<close> reduces without a bound.
\<close>

theorem scores_stay_in_range:
  "scores_in_range caps \<Longrightarrow> scores_in_range (run_operations ops caps)"
  unfolding run_operations_def
  by (induction ops arbitrary: caps) (simp_all add: apply_operation_in_range)

theorem scores_stay_in_range_witness:
  "scores_in_range fresh_capabilities
   \<and> scores_in_range
       (run_operations [UpdateTrust ''b'' 2, UpdateHistory ''b'' False,
          ExecuteAgreement (cpu_agreement 2)] fresh_capabilities)"
proof -
  have h: "scores_in_range fresh_capabilities"
    by (simp add: scores_in_range_def in_unit_interval_def fresh_capabilities_def)
  show ?thesis
    using h scores_stay_in_range [OF h] by simp
qed

text \<open>
  The claim as stated fails for the resources: an agent with one unit of \<open>cpu\<close> that executes
  an agreement committing two units is left with \<open>-1\<close>.
\<close>

theorem resources_not_clamped_counterexample:
  "scores_in_range fresh_capabilities \<and> resources_nonneg fresh_capabilities
   \<and> available_resources (run_operations [ExecuteAgreement (cpu_agreement 2)] fresh_capabilities)
       = [(''cpu'', -1)]
   \<and> \<not> resources_nonneg (run_operations [ExecuteAgreement (cpu_agreement 2)] fresh_capabilities)"
  by (simp add: scores_in_range_def in_unit_interval_def resources_nonneg_def
      fresh_capabilities_def cpu_agreement_def run_operations_def execute_agreement_def
      commit_resource_def dict_mem_def dict_get_def dict_set_def Let_def)

subsection \<open>Offers and effective availability\<close>

lemma dict_get_map_values:
  "f dflt = dflt' \<Longrightarrow> dict_get (dict_map_values f d) k dflt' = f (dict_get d k dflt)"
  by (simp add: dict_get_def dict_map_values_def map_of_map split: option.splits)

lemma dict_get_available:
  "dict_get (calculate_available_resources caps) kind 0 = effective_available caps kind"
  by (simp add: calculate_available_resources_def effective_available_def
      dict_get_map_values [where dflt = 0])

lemma dict_get_member:
  "wf_dict d \<Longrightarrow> (k, v) \<in> set d \<Longrightarrow> dict_get d k dflt = v"
  by (simp add: wf_dict_def dict_get_def)

lemma effective_available_nonneg:
  "availability_nonneg caps \<Longrightarrow> 0 \<le> effective_available caps kind"
  by (auto simp: availability_nonneg_def effective_available_def dict_get_def list_all_iff
      split: option.splits dest!: map_of_SomeD)

lemma scaled_within_availability:
  assumes wf: "wf_dict (available_resources caps)"
    and nn: "availability_nonneg caps"
    and g: "g \<le> 1"
  shows "within_availability caps (dict_map_values (\<lambda>v. v * g) (calculate_available_resources caps))"
proof -
  have "v * (1 - current_workload caps) * g \<le> effective_available caps k"
    if kv: "(k, v) \<in> set (available_resources caps)" for k v
  proof -
    have e: "effective_available caps k = v * (1 - current_workload caps)"
      using wf kv by (simp add: effective_available_def dict_get_member)
    have "0 \<le> v * (1 - current_workload caps)"
      using nn kv by (auto simp: availability_nonneg_def list_all_iff)
    then have "v * (1 - current_workload caps) * g \<le> v * (1 - current_workload caps) * 1"
      using g by (intro mult_left_mono) simp_all
    then show ?thesis using e by simp
  qed
  then show ?thesis
    by (auto simp: within_availability_def dict_map_values_def calculate_available_resources_def
        list_all_iff)
qed

lemma initial_offer_within_availability:
  assumes "wf_dict (available_resources (capabilities e))"
    and "scores_in_range (capabilities e)"
    and "availability_nonneg (capabilities e)"
  shows "within_availability (capabilities e)
           (resources_offered (formulate_initial_offer e ev target ntype req))"
proof -
  let ?t = "dict_get (trust_scores (capabilities e)) target 0.5"
  let ?h = "dict_get (collaboration_history (capabilities e)) target 0.5"
  have "?t \<le> 1" "?h \<le> 1"
    using assms(2) in_unit_interval_get [of _ "0.5"] by (simp_all add: scores_in_range_def)
  then have "(?t + ?h) / 2 \<le> 1" by simp
  from scaled_within_availability [OF assms(1) assms(3) this]
  show ?thesis by (simp add: formulate_initial_offer_def Let_def)
qed

lemma counter_offer_within_availability:
  assumes "wf_dict (available_resources (capabilities e))"
    and "scores_in_range (capabilities e)"
    and "availability_nonneg (capabilities e)"
    and "formulate_counter_offer e ev peer initial req = Inr offer"
  shows "within_availability (capabilities e) (resources_offered offer)"
proof -
  let ?t = "dict_get (trust_scores (capabilities e)) peer 0.5"
  have "?t \<le> 1"
    using assms(2) in_unit_interval_get [of _ "0.5"] by (simp add: scores_in_range_def)
  then have "0.4 + ?t * 0.4 \<le> 1" by simp
  from scaled_within_availability [OF assms(1) assms(3) this] assms(4)
  show ?thesis
    by (auto simp: formulate_counter_offer_def determine_negotiation_strategy_def Let_def
        split: sum.splits)
qed

lemma refined_offer_within_availability:
  assumes "availability_nonneg (capabilities e)"
    and "refine_offer e ev peer neg score = (neg', Inr offer)"
  shows "within_availability (capabilities e) (resources_offered offer)"
proof -
  have "min a (effective_available (capabilities e) k * 0.9) \<le> effective_available (capabilities e) k"
    for a k
    using effective_available_nonneg [OF assms(1), of k] by (simp add: min_def)
  then have "within_availability (capabilities e)
       (dict_map_items (\<lambda>resource amount. min amount
           (dict_get (calculate_available_resources (capabilities e)) resource 0 * 0.9)) d)" for d
    by (auto simp: within_availability_def dict_map_items_def list_all_iff dict_get_available)
  then show ?thesis
    using assms(2) by (auto simp: refine_offer_def Let_def split: sum.splits)
qed

text \<open>
  Claim C1, as amended. When the trust scores and collaboration-history values are in
  \<open>[0,1]\<close> and no resource kind has a negative effective availability, every amount in the
  \<open>resources_offered\<close> of an initial offer, of a counter-offer and of a refined offer is at
  most the effective availability of its kind, \<open>available_resources[kind] * (1 - current_workload)\<close>,
  in the state in which the offer is formulated.
\<close>

theorem offers_within_availability:
  assumes "wf_dict (available_resources (capabilities e))"
    and "scores_in_range (capabilities e)"
    and "availability_nonneg (capabilities e)"
  shows "within_availability (capabilities e)
           (resources_offered (formulate_initial_offer e ev target ntype req))
       \<and> (formulate_counter_offer e ev1 peer initial request_details = Inr counter
            \<longrightarrow> within_availability (capabilities e) (resources_offered counter))
       \<and> (refine_offer e ev2 their_offer neg score = (neg', Inr refined)
            \<longrightarrow> within_availability (capabilities e) (resources_offered refined))"
  using assms
  by (simp add: initial_offer_within_availability counter_offer_within_availability
      refined_offer_within_availability)

theorem offers_within_availability_witness:
  "wf_dict (available_resources (capabilities fresh_engine))
   \<and> scores_in_range (capabilities fresh_engine)
   \<and> availability_nonneg (capabilities fresh_engine)
   \<and> resources_offered (formulate_initial_offer fresh_engine (env_at ''m'' 1000) ''b''
        TASK_ASSIGNMENT empty_request) = [(''cpu'', 0.5)]
   \<and> within_availability (capabilities fresh_engine)
        (resources_offered (formulate_initial_offer fresh_engine (env_at ''m'' 1000) ''b''
           TASK_ASSIGNMENT empty_request))"
proof -
  have h: "wf_dict (available_resources (capabilities fresh_engine))"
    "scores_in_range (capabilities fresh_engine)"
    "availability_nonneg (capabilities fresh_engine)"
    by (simp_all add: fresh_engine_def fresh_capabilities_def wf_dict_def scores_in_range_def
        in_unit_interval_def availability_nonneg_def)
  have v: "resources_offered (formulate_initial_offer fresh_engine (env_at ''m'' 1000) ''b''
        TASK_ASSIGNMENT empty_request) = [(''cpu'', 0.5)]"
    by (simp add: formulate_initial_offer_def fresh_engine_def fresh_capabilities_def Let_def
        calculate_available_resources_def dict_map_values_def dict_get_def)
  show ?thesis
    using h v
      offers_within_availability [OF h, of "env_at ''m'' 1000" "''b''" TASK_ASSIGNMENT empty_request]
    by simp
qed

text \<open>
  The overdrawn agent: two agreements of \<open>0.8\<close> each against one unit of \<open>cpu\<close> leave
  \<open>-0.6\<close>, with the relationship scores untouched.
\<close>

lemma overdrawn_capabilities:
  "available_resources (capabilities overdrawn_engine) = [(''cpu'', - 0.6)]
   \<and> current_workload (capabilities overdrawn_engine) = 0
   \<and> trust_scores (capabilities overdrawn_engine) = []
   \<and> collaboration_history (capabilities overdrawn_engine) = []"
  by (simp add: overdrawn_engine_def two_sessions_def handle_acceptance_def session_of_def
      put_session_def initiate_negotiation_def fresh_engine_def env_at_def dict_set_def
      execute_agreement_def cpu_agreement_def commit_resource_def dict_mem_def dict_get_def
      fresh_capabilities_def Let_def after_uuid4_def)

text \<open>
  The claim as stated fails there: the trust scores and history values are in range (there
  are none), the effective availability of \<open>cpu\<close> is \<open>-0.6\<close>, and the initial offer to an
  unknown peer, with generosity \<open>0.5\<close>, offers \<open>-0.3\<close>, which is more.
\<close>

theorem offer_above_availability_counterexample:
  "scores_in_range (capabilities overdrawn_engine)
   \<and> effective_available (capabilities overdrawn_engine) ''cpu'' = - 0.6
   \<and> resources_offered (formulate_initial_offer overdrawn_engine (env_at ''p'' 3000) ''b''
          TASK_ASSIGNMENT empty_request) = [(''cpu'', - 0.3)]
   \<and> \<not> within_availability (capabilities overdrawn_engine)
         (resources_offered (formulate_initial_offer overdrawn_engine (env_at ''p'' 3000) ''b''
            TASK_ASSIGNMENT empty_request))"
  by (simp add: overdrawn_capabilities scores_in_range_def in_unit_interval_def
      formulate_initial_offer_def Let_def calculate_available_resources_def dict_map_values_def
      dict_get_def within_availability_def effective_available_def)

subsection \<open>The acceptance score\<close>

lemma fold_satisfaction:
  "fold (\<lambda>(resource, needed) acc. acc + f resource needed) needs a
     = a + sum_list (map (\<lambda>(resource, needed). f resource needed) needs)"
  by (induction needs arbitrary: a) (auto simp: algebra_simps)

lemma needs_satisfaction_is_mean:
  assumes "positive_amounts needs"
  shows "needs_satisfaction_of offered needs = spec_needs_satisfaction offered needs"
proof -
  have "sum_list (map (\<lambda>(resource, needed).
            if 0 < needed then min 1 (dict_get offered resource 0 / needed) else 1) needs)
        = sum_list (map (\<lambda>(resource, needed). min 1 (dict_get offered resource 0 / needed)) needs)"
    using assms by (intro arg_cong [where f = sum_list] map_cong) (auto simp: positive_amounts_def list_all_iff)
  then show ?thesis
    unfolding needs_satisfaction_of_def spec_needs_satisfaction_def
      fold_satisfaction [where f = "\<lambda>resource needed. if 0 < needed then min 1 (dict_get offered resource 0 / needed) else 1"]
    by simp
qed

lemma request_reasonableness_is_product:
  "positive_amounts requested \<Longrightarrow>
     request_reasonableness_of available requested acc
       = Inr (acc * spec_request_reasonableness available requested)"
proof (induction available requested acc rule: request_reasonableness_of.induct)
  case (1 available acc)
  then show ?case by (simp add: spec_request_reasonableness_def)
next
  case (2 available resource amount rest acc)
  have pos: "0 < amount" and rest: "positive_amounts rest"
    using "2.prems" by (simp_all add: positive_amounts_def)
  let ?a = "dict_get available resource 0"
  have step: "spec_request_reasonableness available ((resource, amount) # rest)
        = min 1 (?a / amount) * spec_request_reasonableness available rest"
    by (simp add: spec_request_reasonableness_def)
  show ?case
  proof (cases "amount > ?a")
    case True
    then have m: "min 1 (?a / amount) = ?a / amount"
      using pos by (simp add: min_def)
    have "request_reasonableness_of available ((resource, amount) # rest) acc
            = request_reasonableness_of available rest (acc * (?a / amount))"
      using True pos by simp
    also have "\<dots> = Inr (acc * (?a / amount) * spec_request_reasonableness available rest)"
      using "2.IH"(1) [OF refl True _ rest] pos by simp
    finally show ?thesis by (simp only: step m mult.assoc)
  next
    case False
    then have m: "min 1 (?a / amount) = 1"
      using pos by (simp add: min_def)
    have "request_reasonableness_of available ((resource, amount) # rest) acc
            = request_reasonableness_of available rest acc"
      using False by simp
    also have "\<dots> = Inr (acc * spec_request_reasonableness available rest)"
      using "2.IH"(2) [OF refl False rest] by simp
    finally show ?thesis by (simp only: step m mult_1)
  qed
qed

lemma evaluate_offer_is_spec_score:
  assumes "positive_amounts (case get_resources_requested offer of None \<Rightarrow> [] | Some d \<Rightarrow> d)"
  shows "evaluate_offer caps offer neg
           = Inr (spec_score caps offer
                    (assess_our_needs (case initial_request neg of None \<Rightarrow> empty_request | Some r \<Rightarrow> r)))"
proof -
  have n: "needs_satisfaction_of offered (assess_our_needs r)
             = spec_needs_satisfaction offered (assess_our_needs r)" for offered r
    by (rule needs_satisfaction_is_mean) (simp add: assess_our_needs_def positive_amounts_def)
  have eq: "(ns * 0.4 + rr * 0.4 + t * 0.1 + h * 0.1) * (0.5 + c * 0.5)
              = (0.4 * ns + 0.4 * rr + 0.1 * t + 0.1 * h) * (0.5 + 0.5 * c)" for ns rr t h c :: real
    by (simp add: mult.commute)
  show ?thesis
    unfolding evaluate_offer_def spec_score_def Let_def n
      request_reasonableness_is_product [OF assms]
    by (simp only: sum.case mult_1 eq)
qed

lemma spec_request_reasonableness_nonneg:
  assumes "availability_nonneg caps" and "positive_amounts requested"
  shows "0 \<le> spec_request_reasonableness (calculate_available_resources caps) requested"
proof -
  have "0 \<le> min 1 (dict_get (calculate_available_resources caps) k 0 / q)" if "(k, q) \<in> set requested" for k q
  proof -
    have "0 < q" using assms(2) that by (auto simp: positive_amounts_def list_all_iff)
    then show ?thesis
      using effective_available_nonneg [OF assms(1), of k] by (simp add: dict_get_available)
  qed
  then show ?thesis
    unfolding spec_request_reasonableness_def
    by (intro prod_list_nonneg) auto
qed

lemma spec_score_range:
  assumes "positive_amounts (case get_resources_requested offer of None \<Rightarrow> [] | Some d \<Rightarrow> d)"
    and "scores_in_range caps" and "availability_nonneg caps"
    and "0 \<le> (case get_confidence offer of None \<Rightarrow> 0.5 | Some c \<Rightarrow> c)"
  shows "0 \<le> spec_score caps offer []"
proof -
  let ?rr = "spec_request_reasonableness (calculate_available_resources caps)
               (case get_resources_requested offer of None \<Rightarrow> [] | Some d \<Rightarrow> d)"
  let ?s = "case get_from_agent offer of None \<Rightarrow> '''' | Some a \<Rightarrow> a"
  let ?c = "case get_confidence offer of None \<Rightarrow> 0.5 | Some c \<Rightarrow> c"
  have rr: "0 \<le> ?rr" by (rule spec_request_reasonableness_nonneg [OF assms(3) assms(1)])
  have t: "0 \<le> dict_get (trust_scores caps) ?s 0.5"
    and h: "0 \<le> dict_get (collaboration_history caps) ?s 0.5"
    using assms(2) in_unit_interval_get [of _ "0.5"] by (simp_all add: scores_in_range_def)
  have "0 \<le> (0.4 * ?rr + 0.1 * dict_get (trust_scores caps) ?s 0.5
               + 0.1 * dict_get (collaboration_history caps) ?s 0.5) * (0.5 + 0.5 * ?c)"
    using rr t h assms(4) by (intro mult_nonneg_nonneg) auto
  then show ?thesis
    by (simp add: spec_score_def spec_needs_satisfaction_def Let_def)
qed

text \<open>
  Claim C2, as amended. For an incoming offer whose requested amounts are all positive,
  the score of \<^verbatim>\<open>_evaluate_offer\<close> is
  \<open>min(1, (0.4 * needsSatisfaction + 0.4 * requestReasonableness + 0.1 * trust[from]
  + 0.1 * collaborationHistory[from]) * (0.5 + 0.5 * confidence))\<close>, where
  \<open>needsSatisfaction\<close> is the mean over the needed resources of \<open>min(1, offered / needed)\<close>
  and \<open>0\<close> when nothing is needed, and \<open>requestReasonableness\<close> is the product over the
  requested resources of \<open>min(1, available / requested)\<close>. The score is at most \<open>1\<close>, and
  it is at least \<open>0\<close> when the trust scores and history values are in \<open>[0,1]\<close>, no effective
  availability is negative and the confidence is not negative.
\<close>

theorem evaluate_offer_score:
  assumes "positive_amounts (case get_resources_requested offer of None \<Rightarrow> [] | Some d \<Rightarrow> d)"
  shows "evaluate_offer caps offer neg
           = Inr (spec_score caps offer
                    (assess_our_needs (case initial_request neg of None \<Rightarrow> empty_request | Some r \<Rightarrow> r)))
       \<and> spec_score caps offer
            (assess_our_needs (case initial_request neg of None \<Rightarrow> empty_request | Some r \<Rightarrow> r)) \<le> 1
       \<and> (scores_in_range caps \<and> availability_nonneg caps
            \<and> 0 \<le> (case get_confidence offer of None \<Rightarrow> 0.5 | Some c \<Rightarrow> c)
            \<longrightarrow> 0 \<le> spec_score caps offer
                      (assess_our_needs (case initial_request neg of None \<Rightarrow> empty_request | Some r \<Rightarrow> r)))"
proof -
  have upper: "spec_score caps offer needs \<le> 1" for needs
    by (simp add: spec_score_def Let_def)
  have lower: "0 \<le> spec_score caps offer (assess_our_needs r)"
    if "scores_in_range caps" "availability_nonneg caps"
      "0 \<le> (case get_confidence offer of None \<Rightarrow> 0.5 | Some c \<Rightarrow> c)" for r
    using spec_score_range [OF assms that] by (simp add: assess_our_needs_def)
  show ?thesis
    using evaluate_offer_is_spec_score [OF assms] upper lower by simp
qed

theorem evaluate_offer_score_witness:
  "positive_amounts (case get_resources_requested (offer_requesting 2) of None \<Rightarrow> [] | Some d \<Rightarrow> d)
   \<and> scores_in_range fresh_capabilities \<and> availability_nonneg fresh_capabilities
   \<and> evaluate_offer fresh_capabilities (offer_requesting 2) example_session = Inr 0.3
   \<and> spec_score fresh_capabilities (offer_requesting 2) [] = 0.3"
proof -
  have h: "positive_amounts
             (case get_resources_requested (offer_requesting 2) of None \<Rightarrow> [] | Some d \<Rightarrow> d)"
    by (simp add: offer_requesting_def positive_amounts_def)
  have v: "spec_score fresh_capabilities (offer_requesting 2) [] = 0.3"
    by (simp add: spec_score_def offer_requesting_def fresh_capabilities_def Let_def
        calculate_available_resources_def dict_map_values_def dict_get_def
        spec_needs_satisfaction_def spec_request_reasonableness_def)
  have r: "scores_in_range fresh_capabilities \<and> availability_nonneg fresh_capabilities"
    by (simp add: scores_in_range_def in_unit_interval_def availability_nonneg_def
        fresh_capabilities_def)
  show ?thesis
    using h v r evaluate_offer_score [OF h, of fresh_capabilities example_session]
    by (simp add: assess_our_needs_def)
qed

text \<open>
  The claim as stated fails in two ways. A request for \<open>-1\<close> of a resource of which \<open>1\<close> is
  available leaves the product at \<open>1\<close> in the code (the request is not above what is
  available), where \<open>min(1, 1 / -1)\<close> is \<open>-1\<close>: the code scores \<open>0.5\<close>, the formula \<open>-0.3\<close>.
  And the overdrawn agent, asked for \<open>0.1\<close> of \<open>cpu\<close>, scores \<open>-2.3\<close>, which is below \<open>0\<close>.
\<close>

theorem evaluate_offer_score_counterexample:
  "evaluate_offer fresh_capabilities (offer_requesting (- 1)) example_session = Inr 0.5
   \<and> spec_score fresh_capabilities (offer_requesting (- 1)) [] = - 0.3
   \<and> evaluate_offer (capabilities overdrawn_engine) (offer_requesting 0.1) example_session
       = Inr (- 2.3)"
  by (simp add: evaluate_offer_def spec_score_def offer_requesting_def example_session_def
      fresh_capabilities_def overdrawn_capabilities Let_def calculate_available_resources_def
      dict_map_values_def dict_get_def assess_our_needs_def needs_satisfaction_of_def
      spec_needs_satisfaction_def spec_request_reasonableness_def)

subsection \<open>The participation gate\<close>






subsection \<open>Sessions under the handlers\<close>










subsection \<open>Deadlines\<close>




subsection \<open>Terminal statuses\<close>








subsection \<open>Scenario A\<close>







subsection \<open>Refinement is monotone\<close>


lemma dict_map_items_items:
  "dict_map_items f (dict_map_items g d) = dict_map_items (\<lambda>k a. f k (g k a)) d"
  by (simp add: dict_map_items_def case_prod_unfold)

lemma dict_map_values_as_items:
  "dict_map_values g d = dict_map_items (\<lambda>k a. g a) d"
  by (simp add: dict_map_items_def dict_map_values_def)

lemma refine_offer_amounts:
  assumes "refine_offer e ev their_offer neg score = (neg1, Inr offer)"
  shows "offer_amounts offer
           = (dict_map_items
                (\<lambda>k a. min (a * (1 + (1 - score) * 0.3))
                         (effective_available (capabilities e) k * 0.9))
                (fst (last_offer_amounts neg)),
              dict_map_items (\<lambda>k a. a * (1 - (1 - score) * 0.3 * 0.5))
                (snd (last_offer_amounts neg)))"
    and "last_offer_amounts neg1 = offer_amounts offer"
  using assms
  by (auto simp: refine_offer_def Let_def offer_amounts_def last_offer_amounts_def as_dict_def
      dict_map_values_as_items dict_map_items_items dict_get_available split: sum.splits)







text \<open>
  In a session that the engine itself has created, \<^verbatim>\<open>our_last_offer\<close> is absent until the
  first refinement; every refined offer then has no offered and no requested amounts.
\<close>

lemma refinements_without_last_offer:
  "fst (last_offer_amounts neg) = [] \<Longrightarrow> snd (last_offer_amounts neg) = []
     \<Longrightarrow> list_all (\<lambda>offer. offer_amounts offer = ([], []))
           (successive_refinements e their_offer neg steps)"
proof (induction steps arbitrary: neg)
  case Nil
  then show ?case by simp
next
  case (Cons step rest)
  obtain ev score where step: "step = (ev, score)" by (cases step)
  obtain neg1 res where r: "refine_offer e ev their_offer neg score = (neg1, res)"
    by (cases "refine_offer e ev their_offer neg score")
  show ?case
  proof (cases res)
    case (Inl err)
    then show ?thesis by (simp add: step r)
  next
    case (Inr offer)
    note r' = r [unfolded Inr]
    have empty: "offer_amounts offer = ([], [])"
      by (simp add: refine_offer_amounts(1) [OF r'] Cons.prems dict_map_items_def)
    have "last_offer_amounts neg1 = ([], [])"
      by (simp add: refine_offer_amounts(2) [OF r'] empty)
    then have "list_all (\<lambda>offer. offer_amounts offer = ([], []))
                 (successive_refinements e their_offer neg1 rest)"
      by (intro Cons.IH) simp_all
    then show ?thesis by (simp add: step r Inr empty)
  qed
qed

subsection \<open>Offers as objects\<close>

text \<open>
  The store model computes the amounts of the value model: when the last offer's two
  dictionaries are different objects, the new offer's dictionaries hold after the call what
  \<^verbatim>\<open>_refine_offer\<close> returns in the value model.
\<close>

lemma refine_offer_in_store_agrees:
  assumes "valid_offer h cur"
    and "ref_resources_offered cur \<noteq> ref_resources_requested cur"
    and "last_offer_amounts neg = offer_contents h cur"
    and "refine_offer e ev their_offer neg score = (neg1, Inr offer)"
    and "refine_offer_in_store (capabilities e) h (Some cur) score = (h', new)"
  shows "offer_contents h' new = offer_amounts offer"
  using assms(1,2,5) refine_offer_amounts(1) [OF assms(4)]
  by (auto simp: refine_offer_in_store_def Let_def offer_contents_def valid_offer_def
      assms(3) dict_map_values_as_items dict_map_items_items dict_get_available)





end
